theory Spec2Isabelle
  imports Main
begin

section \<open>JavaScript strings and numbers, as far as the component uses them\<close>

text \<open>
  A JavaScript string is modelled as a \<^typ>\<open>string\<close>, one \<^typ>\<open>char\<close> per code unit in the
  range U+0000..U+00FF. Numbers that the component compares or prints are integers: file
  sizes (below \<open>2^53\<close>, where the double arithmetic of the source is exact), HTTP status
  codes and the result of \<open>parseInt\<close>. \<open>NaN\<close> is the value \<open>None\<close> of an option type.
\<close>

definition nl :: string where
  "nl = [CHR 0x0A]"

definition bsl :: string where
  "bsl = [CHR 0x5C]"

text \<open>White space and line terminators, as \<open>String.prototype.trim\<close> and \<open>parseInt\<close> strip
  them: TAB, LF, VT, FF, CR, SP and NBSP (the ones below U+0100).\<close>

definition is_js_space :: "char \<Rightarrow> bool" where
  "is_js_space c = (c \<in> set [CHR 0x09, CHR 0x0A, CHR 0x0B, CHR 0x0C, CHR 0x0D, CHR 0x20, CHR 0xA0])"

definition trim_start :: "string \<Rightarrow> string" where
  "trim_start s = dropWhile is_js_space s"

text \<open>\<open>s.trim()\<close>\<close>

definition js_trim :: "string \<Rightarrow> string" where
  "js_trim s = rev (dropWhile is_js_space (rev (dropWhile is_js_space s)))"

text \<open>\<open>s.includes(sub)\<close>: \<open>sub\<close> occurs in \<open>s\<close> as a contiguous run of code units.\<close>

fun js_includes :: "string \<Rightarrow> string \<Rightarrow> bool" where
  "js_includes [] sub = (sub = [])"
| "js_includes (c # cs) sub = (take (length sub) (c # cs) = sub \<or> js_includes cs sub)"

definition digit_char :: "nat \<Rightarrow> char" where
  "digit_char d = ''0123456789'' ! d"

text \<open>The decimal rendering of a non-negative integer, as a template literal prints it.\<close>

fun show_nat :: "nat \<Rightarrow> string" where
  "show_nat n = (if n < 10 then [digit_char n] else show_nat (n div 10) @ [digit_char (n mod 10)])"

declare show_nat.simps [simp del]

definition show_int :: "int \<Rightarrow> string" where
  "show_int i = (if i < 0 then ''-'' @ show_nat (nat (- i)) else show_nat (nat i))"

text \<open>\<open>(bytes / (1024 * 1024)).toFixed(2)\<close>. The quotient of an integer below \<open>2^53\<close> by
  \<open>2^20\<close> is an exact double, and \<open>toFixed(2)\<close> picks the integer \<open>k\<close> with \<open>k / 100\<close>
  nearest to it, the larger one on a tie: \<open>k = \<lfloor>bytes * 100 / 2^20 + 1/2\<rfloor>\<close>.\<close>

definition megabytes_toFixed2 :: "nat \<Rightarrow> string" where
  "megabytes_toFixed2 bytes =
     (let k = (200 * bytes + 1024 * 1024) div (2 * 1024 * 1024)
      in show_nat (k div 100) @ ''.'' @ [digit_char (k mod 100 div 10), digit_char (k mod 10)])"

text \<open>The value of a code unit as a digit (\<open>0-9\<close>, \<open>a-z\<close>, \<open>A-Z\<close>), if it is one.\<close>

definition digit_val :: "char \<Rightarrow> nat option" where
  "digit_val c =
     (let n = (of_char c :: nat)
      in if 48 \<le> n \<and> n \<le> 57 then Some (n - 48)
         else if 97 \<le> n \<and> n \<le> 122 then Some (n - 87)
         else if 65 \<le> n \<and> n \<le> 90 then Some (n - 55)
         else None)"

definition is_radix_digit :: "nat \<Rightarrow> char \<Rightarrow> bool" where
  "is_radix_digit r c = (case digit_val c of None \<Rightarrow> False | Some d \<Rightarrow> d < r)"

definition digits_value :: "nat \<Rightarrow> string \<Rightarrow> nat" where
  "digits_value r ds = foldl (\<lambda>acc c. acc * r + the (digit_val c)) 0 ds"

text \<open>\<open>parseInt(s)\<close> with no radix argument: leading white space is skipped, then an
  optional sign, then an optional \<open>0x\<close>/\<open>0X\<close> (which selects radix 16), then the longest
  run of digits of the radix. No digit at all gives \<open>NaN\<close>.\<close>

definition parseInt :: "string \<Rightarrow> int option" where
  "parseInt s =
     (let s1 = trim_start s;
          neg = (take 1 s1 = ''-'');
          s2 = (if take 1 s1 = ''-'' \<or> take 1 s1 = ''+'' then drop 1 s1 else s1);
          hex = (take 2 s2 = ''0x'' \<or> take 2 s2 = ''0X'');
          r = (if hex then 16 else 10);
          s3 = (if hex then drop 2 s2 else s2);
          z = takeWhile (is_radix_digit r) s3
      in if z = [] then None
         else Some ((if neg then - 1 else 1) * int (digits_value r z)))"

section \<open>Configuration\<close>

text \<open>\<open>process.env\<close>: \<open>None\<close> when \<open>process\<close> or \<open>process.env\<close> does not exist
  (the optional chaining and the \<open>try\<close>/\<open>catch\<close> of \<open>getEnvVar\<close> both end in the default).\<close>

type_synonym process_env = "(string \<rightharpoonup> string) option"

definition getEnvVar :: "process_env \<Rightarrow> string \<Rightarrow> string \<Rightarrow> string" where
  "getEnvVar penv name defaultValue =
     (case penv of
        None \<Rightarrow> defaultValue
      | Some env \<Rightarrow>
          (case env name of
             None \<Rightarrow> defaultValue
           | Some v \<Rightarrow> if v = [] then defaultValue else v))"

text \<open>\<open>process?.env?.[name]\<close>, the setting as configured: \<open>None\<close> is \<open>undefined\<close>.\<close>

definition env_setting :: "process_env \<Rightarrow> string \<Rightarrow> string option" where
  "env_setting penv name = (case penv of None \<Rightarrow> None | Some env \<Rightarrow> env name)"

definition API_KEY :: "process_env \<Rightarrow> string" where
  "API_KEY penv = getEnvVar penv ''REACT_APP_ANTHROPIC_API_KEY'' ''''"

text \<open>\<open>parseInt(...) * 1024 * 1024\<close>; \<open>NaN\<close> stays \<open>NaN\<close>.\<close>

definition MAX_FILE_SIZE :: "process_env \<Rightarrow> int option" where
  "MAX_FILE_SIZE penv =
     map_option (\<lambda>n. n * 1024 * 1024) (parseInt (getEnvVar penv ''REACT_APP_MAX_FILE_SIZE_MB'' ''25''))"

definition SUPPORTED_FORMATS :: "string list" where
  "SUPPORTED_FORMATS = [''image/png'', ''image/jpeg'', ''image/jpg'', ''image/gif'', ''image/webp'']"

section \<open>Validation\<close>

text \<open>The fields of a browser \<open>File\<close> that the component reads.\<close>

record js_file =
  file_name :: string
  file_type :: string
  file_size :: nat

text \<open>The message of the size check. \<open>MAX_FILE_SIZE / (1024 * 1024)\<close> gives back the
  parsed number of megabytes, printed here digit by digit (as the source prints it for
  every setting below \<open>2^53\<close> in absolute value).\<close>

definition size_message :: "int \<Rightarrow> nat \<Rightarrow> string" where
  "size_message m sz =
     ''File size must be less than '' @ show_int (m div (1024 * 1024)) @ ''MB. Current size: ''
       @ megabytes_toFixed2 sz @ ''MB''"

text \<open>\<open>validateFile\<close>: \<open>None\<close> is the \<open>null\<close> of the source (the file is valid), \<open>Some msg\<close>
  the message it returns. The argument is \<open>None\<close> when no file was handed over.
  In \<open>file.size > MAX_FILE_SIZE\<close> a limit that is \<open>NaN\<close> makes the comparison false.\<close>

definition validateFile :: "process_env \<Rightarrow> js_file option \<Rightarrow> string option" where
  "validateFile penv fo =
     (case fo of
        None \<Rightarrow> Some ''No file selected''
      | Some f \<Rightarrow>
          if file_type f \<notin> set SUPPORTED_FORMATS
          then Some ''Please upload a valid image file (PNG, JPG, JPEG, GIF, WebP)''
          else (case MAX_FILE_SIZE penv of
                  None \<Rightarrow> None
                | Some m \<Rightarrow>
                    if int (file_size f) > m then Some (size_message m (file_size f)) else None))"

section \<open>Component state\<close>

text \<open>The \<open>useState\<close> cells and the \<open>useRef\<close> cell of the component. \<open>null\<close> is \<open>None\<close>.
  The cell \<open>image\<close> of the source is the field \<open>image_state\<close>.
  \<open>fileInputRef\<close> is \<open>None\<close> while no input element is attached, otherwise the element's
  \<open>value\<close>. Every setter of the source is called with a value, never with an update
  function, so a handler is a function from the state to the state.\<close>

record state =
  image_state :: "js_file option"
  imagePreview :: "string option"
  instructions :: string
  latexCode :: string
  isConverting :: bool
  copySuccess :: bool
  error :: string
  dragActive :: bool
  fileInputRef :: "string option"

definition initial_state :: state where
  "initial_state =
     \<lparr>image_state = None, imagePreview = None, instructions = [], latexCode = [],
      isConverting = False, copySuccess = False, error = [], dragActive = False,
      fileInputRef = None\<rparr>"

text \<open>What a \<open>FileReader\<close> does with \<open>readAsDataURL\<close>: it fires \<open>onload\<close> with the data
  URL, or \<open>onerror\<close>.\<close>

datatype read_result = ReadLoaded string | ReadFailed

text \<open>\<open>handleImageUpload\<close>, together with the reader callback that follows it.
  \<open>if (validationError)\<close> tests the message for truthiness.\<close>

definition handleImageUpload :: "process_env \<Rightarrow> js_file option \<Rightarrow> read_result \<Rightarrow> state \<Rightarrow> state" where
  "handleImageUpload penv fo rd s =
     (let validationError = validateFile penv fo
      in if validationError \<noteq> None \<and> validationError \<noteq> Some []
         then s\<lparr>error := the validationError\<rparr>
         else (let s1 = s\<lparr>image_state := fo, error := [], latexCode := []\<rparr>
               in case rd of
                    ReadLoaded url \<Rightarrow> s1\<lparr>imagePreview := Some url\<rparr>
                  | ReadFailed \<Rightarrow> s1\<lparr>error := ''Failed to read the image file''\<rparr>))"

text \<open>\<open>handleDrop\<close>: \<open>files\<close> is \<open>e.dataTransfer.files\<close>.\<close>

definition handleDrop :: "process_env \<Rightarrow> js_file list \<Rightarrow> read_result \<Rightarrow> state \<Rightarrow> state" where
  "handleDrop penv files rd s =
     (let s1 = s\<lparr>dragActive := False\<rparr>
      in case files of
           [] \<Rightarrow> s1
         | f # _ \<Rightarrow> handleImageUpload penv (Some f) rd s1)"

definition handleDragEnter :: "state \<Rightarrow> state" where
  "handleDragEnter s = s\<lparr>dragActive := True\<rparr>"

text \<open>\<open>handleDragLeave\<close>: \<open>inside\<close> is \<open>e.currentTarget.contains(e.relatedTarget)\<close>.\<close>

definition handleDragLeave :: "bool \<Rightarrow> state \<Rightarrow> state" where
  "handleDragLeave inside s = (if \<not> inside then s\<lparr>dragActive := False\<rparr> else s)"

text \<open>\<open>copyToClipboard\<close>: the clipboard write and its fallback both end in
  \<open>setCopySuccess(true)\<close>; the timer that clears the flag 2000 ms later is
  \<open>copyTimeout\<close>.\<close>

definition copyToClipboard :: "state \<Rightarrow> state" where
  "copyToClipboard s = (if latexCode s = [] then s else s\<lparr>copySuccess := True\<rparr>)"

definition copyTimeout :: "state \<Rightarrow> state" where
  "copyTimeout s = s\<lparr>copySuccess := False\<rparr>"

definition resetTool :: "state \<Rightarrow> state" where
  "resetTool s =
     s\<lparr>image_state := None, imagePreview := None, latexCode := [], instructions := [],
       error := [], copySuccess := False,
       fileInputRef := (case fileInputRef s of None \<Rightarrow> None | Some v \<Rightarrow> Some [])\<rparr>"

section \<open>JSON values as the conversion reads them\<close>

text \<open>The value \<open>response.json()\<close> resolves to. The component does no arithmetic on
  a number of the body, it only tests it for truthiness and prints it; so a number is
  given by the text that \<open>String(n)\<close> yields for it (\<open>0\<close> for both zeros, \<open>1.5\<close>,
  \<open>1e+21\<close>). A JavaScript value that may be \<open>undefined\<close> is a \<open>json option\<close>.\<close>

datatype json =
    JNull
  | JBool bool
  | JNum string
  | JStr string
  | JArr "json list"
  | JObj "(string \<times> json) list"

text \<open>Truthiness, as \<open>!v\<close> and \<open>v || d\<close> test it.\<close>

fun truthy :: "json option \<Rightarrow> bool" where
  "truthy None = False"
| "truthy (Some JNull) = False"
| "truthy (Some (JBool b)) = b"
| "truthy (Some (JNum r)) = (r \<noteq> ''0'')"
| "truthy (Some (JStr s)) = (s \<noteq> [])"
| "truthy (Some (JArr xs)) = True"
| "truthy (Some (JObj kvs)) = True"

text \<open>\<open>v.name\<close> for a value \<open>v\<close> that is not \<open>null\<close>, and one of the names the component
  reads (\<open>content\<close>, \<open>text\<close>, \<open>error\<close>, \<open>message\<close>): only an object can have it;
  \<open>JSON.parse\<close> keeps the last of several equal keys.\<close>

fun js_get :: "json \<Rightarrow> string \<Rightarrow> json option" where
  "js_get (JObj kvs) name = map_of (rev kvs) name"
| "js_get v name = None"

text \<open>\<open>v[0]\<close> for a value \<open>v\<close> that is not \<open>null\<close>.\<close>

fun js_index0 :: "json \<Rightarrow> json option" where
  "js_index0 (JArr xs) = (case xs of [] \<Rightarrow> None | x # _ \<Rightarrow> Some x)"
| "js_index0 (JStr s) = (case s of [] \<Rightarrow> None | c # _ \<Rightarrow> Some (JStr [c]))"
| "js_index0 (JObj kvs) = map_of (rev kvs) ''0''"
| "js_index0 v = None"

fun join_comma :: "string list \<Rightarrow> string" where
  "join_comma [] = []"
| "join_comma [x] = x"
| "join_comma (x # y # ys) = x @ '','' @ join_comma (y # ys)"

text \<open>The string a template literal puts in for a value (\<open>ToString\<close>), or \<open>None\<close> when
  the conversion throws a \<open>TypeError\<close>. An object is printed by
  \<open>Object.prototype.toString\<close>, unless it has a key \<open>toString\<close> of its own: that value
  is not callable, \<open>valueOf\<close> gives back the object, and the conversion throws. An array
  joins the strings of its elements with commas, \<open>null\<close> elements as the empty string,
  and throws when an element does.\<close>

fun js_to_string :: "json \<Rightarrow> string option" where
  "js_to_string JNull = Some ''null''"
| "js_to_string (JBool b) = Some (if b then ''true'' else ''false'')"
| "js_to_string (JNum r) = Some r"
| "js_to_string (JStr s) = Some s"
| "js_to_string (JArr xs) =
     map_option join_comma (those (map (\<lambda>x. if x = JNull then Some [] else js_to_string x) xs))"
| "js_to_string (JObj kvs) =
     (if ''toString'' \<in> fst ` set kvs then None else Some ''[object Object]'')"

section \<open>Conversion\<close>

text \<open>What the outside world answers during one conversion: the \<open>FileReader\<close>, the
  \<open>fetch\<close> call (rejected with an error of some message, or resolved with a status and
  a body that \<open>response.json()\<close> parses or rejects), and the message that the engine puts
  in a \<open>TypeError\<close> it raises itself.\<close>

datatype body_json = NotJson string | Json json

datatype fetch_result = FetchRejected string | FetchResponse nat body_json

record conv_env =
  file_read :: read_result
  fetch_reply :: fetch_result
  type_error_message :: string

text \<open>The request handed to \<open>fetch\<close>. \<open>req_data\<close> is \<open>None\<close> when \<open>base64Data\<close> is
  \<open>undefined\<close> (\<open>JSON.stringify\<close> then leaves the key out).\<close>

record request =
  req_url :: string
  req_method :: string
  req_content_type :: string
  req_api_key :: string
  req_anthropic_version :: string
  req_model :: string
  req_max_tokens :: nat
  req_media_type :: string
  req_data :: "string option"
  req_prompt :: string

text \<open>The effects of one conversion, in order.\<close>

datatype io_event =
    SetTimeout nat
  | ReadAsDataURL js_file
  | Fetch request
  | ConsoleError string

definition demoLatex :: string where
  "demoLatex =
     ''% Demo LaTeX output - Add your API key for real conversion'' @ nl
     @ bsl @ ''documentclass{article}'' @ nl
     @ bsl @ ''usepackage{amsmath}'' @ nl
     @ bsl @ ''usepackage{amsfonts}'' @ nl
     @ nl
     @ bsl @ ''begin{document}'' @ nl
     @ nl
     @ ''% This is a demo response. To get real conversions:'' @ nl
     @ ''% 1. Add your Anthropic API key to .env.local'' @ nl
     @ ''% 2. Set REACT_APP_ANTHROPIC_API_KEY=your_key_here'' @ nl
     @ nl
     @ bsl @ ''begin{equation}'' @ nl
     @ ''    E = mc^2'' @ nl
     @ bsl @ ''end{equation}'' @ nl
     @ nl
     @ bsl @ ''begin{align}'' @ nl
     @ ''    '' @ bsl @ ''nabla '' @ bsl @ ''cdot '' @ bsl @ ''vec{E} &= '' @ bsl @ ''frac{''
       @ bsl @ ''rho}{'' @ bsl @ ''epsilon_0} '' @ bsl @ bsl @ nl
     @ ''    '' @ bsl @ ''nabla '' @ bsl @ ''cdot '' @ bsl @ ''vec{B} &= 0'' @ nl
     @ bsl @ ''end{align}'' @ nl
     @ nl
     @ bsl @ ''end{document}''"

text \<open>The prompt, with the user's instructions spliced in when there are any.\<close>

definition prompt :: "string \<Rightarrow> string" where
  "prompt instr =
     ''Please analyze this image and convert it to LaTeX code suitable for Overleaf. '' @ nl
     @ nl
     @ ''IMPORTANT INSTRUCTIONS:'' @ nl
     @ ''- Generate clean, properly formatted LaTeX code'' @ nl
     @ ''- Use standard LaTeX packages when needed ('' @ bsl @ ''usepackage{} statements)'' @ nl
     @ ''- For equations, use appropriate math environments ($, '' @ bsl @ ''begin{equation}, ''
       @ bsl @ ''begin{align}, etc.)'' @ nl
     @ ''- For tables, use tabular environment with proper alignment'' @ nl
     @ ''- For diagrams, provide TikZ code if possible, otherwise describe what's needed'' @ nl
     @ ''- Ensure the code is copy-paste ready for Overleaf'' @ nl
     @ ''- Include necessary package imports at the top if needed'' @ nl
     @ ''- Use proper spacing and indentation'' @ nl
     @ ''- Add comments for complex sections'' @ nl
     @ nl
     @ (if instr \<noteq> [] then nl @ ''SPECIAL USER INSTRUCTIONS:'' @ nl @ instr @ nl else [])
     @ nl
     @ nl
     @ ''Respond with ONLY the LaTeX code, no explanations or markdown formatting. ''
     @ ''Start directly with the LaTeX code.''"

text \<open>\<open>reader.result.split(',')[1]\<close>: the piece between the first and the second comma,
  \<open>undefined\<close> when there is no comma.\<close>

definition split_comma_1 :: "string \<Rightarrow> string option" where
  "split_comma_1 s =
     (case dropWhile (\<lambda>c. c \<noteq> CHR '','') s of
        [] \<Rightarrow> None
      | _ # r \<Rightarrow> Some (takeWhile (\<lambda>c. c \<noteq> CHR '','') r))"

definition build_request :: "process_env \<Rightarrow> js_file \<Rightarrow> string option \<Rightarrow> string \<Rightarrow> request" where
  "build_request penv img base64Data instr =
     \<lparr>req_url = ''https://api.anthropic.com/v1/messages'',
      req_method = ''POST'',
      req_content_type = ''application/json'',
      req_api_key = API_KEY penv,
      req_anthropic_version = ''2023-06-01'',
      req_model = ''claude-sonnet-4-20250514'',
      req_max_tokens = 2000,
      req_media_type = file_type img,
      req_data = base64Data,
      req_prompt = prompt instr\<rparr>"

text \<open>\<open>response.ok\<close>\<close>

definition response_ok :: "nat \<Rightarrow> bool" where
  "response_ok status = (200 \<le> status \<and> status \<le> 299)"

text \<open>The body of a non-success response as \<open>errorData\<close>:
  \<open>response.json().catch(() => ({}))\<close>.\<close>

definition errorData :: "body_json \<Rightarrow> json" where
  "errorData body = (case body of NotJson m \<Rightarrow> JObj [] | Json d \<Rightarrow> d)"

text \<open>The message of the error thrown for a non-success response,
  \<open>`API request failed: ${response.status} - ${errorData.error?.message || 'Unknown error'}`\<close>.
  \<open>Inl\<close> is the message of an error thrown while the template is evaluated: the engine's
  \<open>TypeError\<close> for reading \<open>.error\<close> of \<open>null\<close>, or for a detail that cannot be turned
  into a string.\<close>

definition failed_request_message :: "string \<Rightarrow> nat \<Rightarrow> json \<Rightarrow> string + string" where
  "failed_request_message te status ed =
     (if ed = JNull then Inl te
      else (let e = js_get ed ''error'';
                m = (case e of None \<Rightarrow> None | Some JNull \<Rightarrow> None | Some v \<Rightarrow> js_get v ''message'');
                detail = (if truthy m then js_to_string (the m) else Some ''Unknown error'')
            in case detail of
                 None \<Rightarrow> Inl te
               | Some d \<Rightarrow> Inr (''API request failed: '' @ show_nat status @ '' - '' @ d)))"

text \<open>Lines 201 to 207 of the component: the checks on the parsed body of a success
  response, and the trimmed text. \<open>Inl\<close> is the message of the error thrown; \<open>te\<close> is
  the engine's message for the \<open>TypeError\<close> of reading \<open>.content\<close> of \<open>null\<close> or of
  calling \<open>trim\<close> on a value that is not a string.\<close>

definition extract_latex :: "string \<Rightarrow> json \<Rightarrow> string + string" where
  "extract_latex te data =
     (if data = JNull then Inl te
      else (let content = js_get data ''content''
            in if \<not> truthy content then Inl ''Invalid response format from API''
               else (let c0 = js_index0 (the content)
                     in if \<not> truthy c0 then Inl ''Invalid response format from API''
                        else (let textv = js_get (the c0) ''text''
                              in if \<not> truthy textv then Inl ''Invalid response format from API''
                                 else (case the textv of
                                         JStr t \<Rightarrow> Inr (js_trim t)
                                       | _ \<Rightarrow> Inl te)))))"

text \<open>The body of the \<open>try\<close> block: the events it causes, and the text it hands to
  \<open>setLatexCode\<close> (\<open>Inr\<close>) or the message of the error it throws (\<open>Inl\<close>).\<close>

definition try_block :: "process_env \<Rightarrow> conv_env \<Rightarrow> js_file \<Rightarrow> string \<Rightarrow> io_event list \<times> (string + string)" where
  "try_block penv env img instr =
     (if API_KEY penv = [] then ([SetTimeout 2000], Inr demoLatex)
      else (case file_read env of
              ReadFailed \<Rightarrow> ([ReadAsDataURL img], Inl ''Failed to read file'')
            | ReadLoaded url \<Rightarrow>
                (let req = build_request penv img (split_comma_1 url) instr;
                     evs = [ReadAsDataURL img, Fetch req]
                 in case fetch_reply env of
                      FetchRejected m \<Rightarrow> (evs, Inl m)
                    | FetchResponse status body \<Rightarrow>
                        if \<not> response_ok status
                        then (case failed_request_message (type_error_message env) status (errorData body) of
                                Inl m \<Rightarrow> (evs, Inl m)
                              | Inr m \<Rightarrow> (evs, Inl m))
                        else (case body of
                                NotJson m \<Rightarrow> (evs, Inl m)
                              | Json d \<Rightarrow> (evs, extract_latex (type_error_message env) d)))))"

text \<open>The \<open>catch\<close> block: the text handed to \<open>setError\<close> for an error of message
  \<open>msg\<close>.\<close>

definition catch_block :: "string \<Rightarrow> string" where
  "catch_block msg =
     (if js_includes msg ''401''
      then ''Invalid API key. Please check your Anthropic API key in the .env.local file.''
      else if js_includes msg ''403''
      then ''Access forbidden. Please check your API key permissions.''
      else if js_includes msg ''429''
      then ''Rate limit exceeded. Please wait a moment and try again.''
      else if js_includes msg ''Failed to fetch''
      then ''Network error. Please check your internet connection and try again.''
      else ''Failed to convert image to LaTeX: '' @ msg)"

text \<open>\<open>convertToLatex\<close>, run to its end: the state it leaves and the events it caused.
  The \<open>finally\<close> block is the last update.\<close>

definition convertToLatex :: "process_env \<Rightarrow> conv_env \<Rightarrow> state \<Rightarrow> state \<times> io_event list" where
  "convertToLatex penv env s =
     (case image_state s of
        None \<Rightarrow> (s\<lparr>error := ''Please upload an image first''\<rparr>, [])
      | Some img \<Rightarrow>
          (let s1 = s\<lparr>isConverting := True, error := [], latexCode := []\<rparr>;
               (evs, r) = try_block penv env img (instructions s)
           in case r of
                Inr generatedLatex \<Rightarrow> (s1\<lparr>latexCode := generatedLatex, isConverting := False\<rparr>, evs)
              | Inl msg \<Rightarrow>
                  (s1\<lparr>error := catch_block msg, isConverting := False\<rparr>,
                   evs @ [ConsoleError msg])))"

section \<open>Sequences of user actions\<close>

text \<open>The events the component reacts to. Each action is run to its end, the completion
  of its reader, timer or request included, before the next one begins.\<close>

datatype action =
    Upload "js_file option" read_result
  | Drop "js_file list" read_result
  | DragEnter
  | DragLeave bool
  | SetInstructions string
  | Convert conv_env
  | Copy
  | CopyTimeout
  | DismissError
  | Reset

fun step :: "process_env \<Rightarrow> state \<Rightarrow> action \<Rightarrow> state" where
  "step penv s (Upload fo rd) = handleImageUpload penv fo rd s"
| "step penv s (Drop files rd) = handleDrop penv files rd s"
| "step penv s DragEnter = handleDragEnter s"
| "step penv s (DragLeave inside) = handleDragLeave inside s"
| "step penv s (SetInstructions v) = s\<lparr>instructions := v\<rparr>"
| "step penv s (Convert env) = fst (convertToLatex penv env s)"
| "step penv s Copy = copyToClipboard s"
| "step penv s CopyTimeout = copyTimeout s"
| "step penv s DismissError = s\<lparr>error := []\<rparr>"
| "step penv s Reset = resetTool s"

definition run :: "process_env \<Rightarrow> action list \<Rightarrow> state" where
  "run penv acts = foldl (step penv) initial_state acts"

text \<open>Whether an action is an upload (by the picker or by a drop) whose file validation
  rejects.\<close>

definition upload_rejected :: "process_env \<Rightarrow> action \<Rightarrow> bool" where
  "upload_rejected penv a =
     (case a of
        Upload fo rd \<Rightarrow> validateFile penv fo \<noteq> None
      | Drop files rd \<Rightarrow> (case files of [] \<Rightarrow> False | f # _ \<Rightarrow> validateFile penv (Some f) \<noteq> None)
      | _ \<Rightarrow> False)"

text \<open>The actions whose handlers call neither \<open>setLatexCode\<close> nor \<open>setError\<close>.\<close>

definition leaves_result_and_error :: "action \<Rightarrow> bool" where
  "leaves_result_and_error a =
     (case a of
        DragEnter \<Rightarrow> True
      | DragLeave inside \<Rightarrow> True
      | SetInstructions v \<Rightarrow> True
      | Copy \<Rightarrow> True
      | CopyTimeout \<Rightarrow> True
      | Drop files rd \<Rightarrow> files = []
      | _ \<Rightarrow> False)"

definition result_and_error_shown :: "state \<Rightarrow> bool" where
  "result_and_error_shown s = (latexCode s \<noteq> [] \<and> error s \<noteq> [])"

text \<open>A history whose last action touching the result or the error was an upload that
  validation rejected while a result was in place.\<close>

definition last_touch_rejected :: "process_env \<Rightarrow> action list \<Rightarrow> bool" where
  "last_touch_rejected penv acts =
     (\<exists>pre a post. acts = pre @ a # post \<and> upload_rejected penv a
        \<and> latexCode (run penv pre) \<noteq> [] \<and> (\<forall>b \<in> set post. leaves_result_and_error b))"

text \<open>The value of \<open>data.content[0].text\<close> for a body \<open>data\<close> that is not \<open>null\<close>,
  \<open>undefined\<close> when \<open>content\<close>, its first element or the \<open>text\<close> key is missing
  (a falsy value has none of the three).\<close>

definition first_block_text :: "json \<Rightarrow> json option" where
  "first_block_text data =
     (case js_get data ''content'' of
        None \<Rightarrow> None
      | Some c \<Rightarrow> (case js_index0 c of None \<Rightarrow> None | Some b \<Rightarrow> js_get b ''text''))"

text \<open>A result is in place only while an image is.\<close>

definition result_needs_image :: "state \<Rightarrow> bool" where
  "result_needs_image s = (latexCode s = [] \<or> image_state s \<noteq> None)"

section \<open>Sample inputs\<close>

definition sample_png :: js_file where
  "sample_png = \<lparr>file_name = ''equation.png'', file_type = ''image/png'', file_size = 204800\<rparr>"

definition sample_text_file :: js_file where
  "sample_text_file = \<lparr>file_name = ''notes.txt'', file_type = ''text/plain'', file_size = 120\<rparr>"

definition sample_big_png :: js_file where
  "sample_big_png = \<lparr>file_name = ''scan.png'', file_type = ''image/png'', file_size = 31457280\<rparr>"

definition sample_url :: string where
  "sample_url = ''data:image/png;base64,iVBORw0KGgo=''"

text \<open>No variable set: demo mode, 25 MB limit.\<close>

definition demo_penv :: process_env where
  "demo_penv = Some Map.empty"

definition live_penv :: process_env where
  "live_penv = Some [''REACT_APP_ANTHROPIC_API_KEY'' \<mapsto> ''sk-ant-sample'']"

definition unparsable_limit_penv :: process_env where
  "unparsable_limit_penv = Some [''REACT_APP_MAX_FILE_SIZE_MB'' \<mapsto> ''unlimited'']"

text \<open>The size setting present but empty.\<close>

definition empty_limit_penv :: process_env where
  "empty_limit_penv = Some [''REACT_APP_MAX_FILE_SIZE_MB'' \<mapsto> []]"

definition offline_env :: conv_env where
  "offline_env =
     \<lparr>file_read = ReadLoaded sample_url,
      fetch_reply = FetchRejected ''Failed to fetch'',
      type_error_message = ''Cannot read properties of null''\<rparr>"

text \<open>A 429 response whose error detail mentions the number 401.\<close>

definition rate_limited_env :: conv_env where
  "rate_limited_env =
     \<lparr>file_read = ReadLoaded sample_url,
      fetch_reply = FetchResponse 429
        (Json (JObj [(''type'', JStr ''error''),
                     (''error'', JObj [(''type'', JStr ''rate_limit_error''),
                                       (''message'', JStr ''Limit of 401 requests per minute reached'')])])),
      type_error_message = ''Cannot read properties of null''\<rparr>"

definition success_env :: conv_env where
  "success_env =
     \<lparr>file_read = ReadLoaded sample_url,
      fetch_reply = FetchResponse 200
        (Json (JObj [(''content'', JArr [JObj [(''type'', JStr ''text''), (''text'', JStr '' $x^2$  '')]])])),
      type_error_message = ''Cannot read properties of null''\<rparr>"

definition empty_content_env :: conv_env where
  "empty_content_env =
     \<lparr>file_read = ReadLoaded sample_url,
      fetch_reply = FetchResponse 200 (Json (JObj [(''content'', JArr [])])),
      type_error_message = ''Cannot read properties of null''\<rparr>"

text \<open>A 200 response whose body is the JSON text \<open>null\<close>, in an engine that words the
  \<open>TypeError\<close> as V8 does.\<close>

definition null_body_env :: conv_env where
  "null_body_env =
     \<lparr>file_read = ReadLoaded sample_url,
      fetch_reply = FetchResponse 200 (Json JNull),
      type_error_message = ''Cannot read properties of null (reading 'content')''\<rparr>"

text \<open>A 200 response whose body is an HTML page; the message is the parser's.\<close>

definition html_body_env :: conv_env where
  "html_body_env =
     \<lparr>file_read = ReadLoaded sample_url,
      fetch_reply = FetchResponse 200 (NotJson ''Unexpected token < in JSON at position 0''),
      type_error_message = ''Cannot read properties of null (reading 'content')''\<rparr>"

section \<open>Validation: properties\<close>

lemma default_limit: "MAX_FILE_SIZE demo_penv = Some 26214400"
  by (simp add: MAX_FILE_SIZE_def demo_penv_def getEnvVar_def parseInt_def trim_start_def
      is_js_space_def is_radix_digit_def digit_val_def digits_value_def)

lemma unparsable_limit: "parseInt (getEnvVar unparsable_limit_penv ''REACT_APP_MAX_FILE_SIZE_MB'' ''25'') = None"
  by (simp add: unparsable_limit_penv_def getEnvVar_def parseInt_def trim_start_def
      is_js_space_def is_radix_digit_def digit_val_def)

lemma getEnvVar_setting:
  "getEnvVar penv name d
     = (case env_setting penv name of None \<Rightarrow> d | Some v \<Rightarrow> if v = [] then d else v)"
  by (simp add: getEnvVar_def env_setting_def split: option.splits)

lemma parseInt_default: "parseInt ''25'' = Some 25"
  by (simp add: parseInt_def trim_start_def is_js_space_def is_radix_digit_def digit_val_def
      digits_value_def)

lemma parseInt_empty: "parseInt [] = None"
  by (simp add: parseInt_def trim_start_def)

lemma parseInt_unlimited: "parseInt ''unlimited'' = None"
  by (simp add: parseInt_def trim_start_def is_js_space_def is_radix_digit_def digit_val_def)

lemma unparsable_limit_setting:
  "env_setting unparsable_limit_penv ''REACT_APP_MAX_FILE_SIZE_MB'' = Some ''unlimited''"
  by (simp add: env_setting_def unparsable_limit_penv_def)

lemma empty_limit_setting:
  "env_setting empty_limit_penv ''REACT_APP_MAX_FILE_SIZE_MB'' = Some []"
  by (simp add: env_setting_def empty_limit_penv_def)

text \<open>An absent or empty setting is replaced by the default before it is parsed.\<close>

lemma absent_or_empty_setting_uses_default:
  "env_setting penv ''REACT_APP_MAX_FILE_SIZE_MB'' = None
     \<or> env_setting penv ''REACT_APP_MAX_FILE_SIZE_MB'' = Some []
   \<Longrightarrow> MAX_FILE_SIZE penv = Some 26214400"
  by (auto simp: MAX_FILE_SIZE_def getEnvVar_setting parseInt_default)

lemma NaN_limit_accepts:
  "MAX_FILE_SIZE penv = None \<Longrightarrow> file_type f \<in> set SUPPORTED_FORMATS \<Longrightarrow>
   validateFile penv (Some f) = None"
  by (simp add: validateFile_def)

lemma sample_png_supported: "file_type sample_png \<in> set SUPPORTED_FORMATS"
  by (simp add: sample_png_def SUPPORTED_FORMATS_def)

lemma sample_big_png_supported: "file_type sample_big_png \<in> set SUPPORTED_FORMATS"
  by (simp add: sample_big_png_def SUPPORTED_FORMATS_def)

lemma sample_text_file_unsupported: "file_type sample_text_file \<notin> set SUPPORTED_FORMATS"
  by (simp add: sample_text_file_def SUPPORTED_FORMATS_def)

lemma size_message_nonempty: "size_message m sz \<noteq> []"
  by (simp add: size_message_def)

lemma validateFile_message_nonempty: "validateFile penv fo = Some e \<Longrightarrow> e \<noteq> []"
  by (auto simp: validateFile_def size_message_nonempty split: option.splits if_splits)

text \<open>
  C5. A file whose MIME type is not in the allow-list of the component
  (\<open>SUPPORTED_FORMATS\<close>: PNG, JPEG under its two spellings \<open>image/jpeg\<close> and \<open>image/jpg\<close>,
  GIF, WebP) is rejected with the format message, whatever its size and whatever the
  configured limit; a file that validation accepts has a MIME type of the list.
\<close>

theorem validateFile_rejects_unsupported_type:
  "(file_type f \<notin> set SUPPORTED_FORMATS \<longrightarrow>
      validateFile penv (Some f) = Some ''Please upload a valid image file (PNG, JPG, JPEG, GIF, WebP)'')
   \<and> (validateFile penv (Some f) = None \<longrightarrow> file_type f \<in> set SUPPORTED_FORMATS)"
  by (simp add: validateFile_def)

theorem validateFile_rejects_unsupported_type_witness:
  "file_type sample_text_file \<notin> set SUPPORTED_FORMATS
   \<and> validateFile demo_penv (Some sample_text_file)
       = Some ''Please upload a valid image file (PNG, JPG, JPEG, GIF, WebP)''
   \<and> validateFile demo_penv (Some sample_png) = None
   \<and> file_type sample_png \<in> set SUPPORTED_FORMATS"
proof -
  have accepted: "validateFile demo_penv (Some sample_png) = None"
    by (simp add: validateFile_def sample_png_supported default_limit) (simp add: sample_png_def)
  show ?thesis
    using validateFile_rejects_unsupported_type [of sample_text_file demo_penv]
      validateFile_rejects_unsupported_type [of sample_png demo_penv]
      sample_text_file_unsupported accepted
    by simp
qed

text \<open>
  C6. When the configured limit is a number \<open>m\<close> (in bytes), a file with an allowed MIME
  type is accepted exactly when its size is at most \<open>m\<close>: a file of exactly \<open>m\<close> bytes is
  accepted, a file of \<open>m + 1\<close> bytes is rejected.
\<close>

theorem validateFile_size_ceiling:
  assumes "file_type f \<in> set SUPPORTED_FORMATS" and "MAX_FILE_SIZE penv = Some m"
  shows "(validateFile penv (Some f) = None) = (int (file_size f) \<le> m)
       \<and> (int (file_size f) = m \<longrightarrow> validateFile penv (Some f) = None)
       \<and> (int (file_size f) = m + 1 \<longrightarrow> validateFile penv (Some f) \<noteq> None)"
  using assms by (auto simp: validateFile_def)

theorem validateFile_size_ceiling_witness:
  "file_type (sample_png\<lparr>file_size := 26214400\<rparr>) \<in> set SUPPORTED_FORMATS
   \<and> file_type (sample_png\<lparr>file_size := 26214401\<rparr>) \<in> set SUPPORTED_FORMATS
   \<and> MAX_FILE_SIZE demo_penv = Some 26214400
   \<and> validateFile demo_penv (Some (sample_png\<lparr>file_size := 26214400\<rparr>)) = None
   \<and> validateFile demo_penv (Some (sample_png\<lparr>file_size := 26214401\<rparr>)) \<noteq> None"
proof -
  have t0: "file_type (sample_png\<lparr>file_size := 26214400\<rparr>) \<in> set SUPPORTED_FORMATS"
    and t1: "file_type (sample_png\<lparr>file_size := 26214401\<rparr>) \<in> set SUPPORTED_FORMATS"
    using sample_png_supported by simp_all
  show ?thesis
    using validateFile_size_ceiling [OF t0 default_limit]
      validateFile_size_ceiling [OF t1 default_limit] t0 t1 default_limit
    by simp
qed

text \<open>
  C10, as stated, fails for the configured string that is empty: it has no integer prefix
  and \<open>parseInt\<close> of it is \<open>NaN\<close>, but \<open>getEnvVar\<close> replaces it by \<open>25\<close> before parsing,
  the limit is 25 MB, and a PNG of 30 MB is rejected.
\<close>

theorem empty_setting_keeps_default_limit:
  "env_setting empty_limit_penv ''REACT_APP_MAX_FILE_SIZE_MB'' = Some []
   \<and> parseInt [] = None
   \<and> file_type sample_big_png \<in> set SUPPORTED_FORMATS
   \<and> validateFile empty_limit_penv (Some sample_big_png)
       = Some ''File size must be less than 25MB. Current size: 30.00MB''"
proof -
  have "MAX_FILE_SIZE empty_limit_penv = Some 26214400"
    using absent_or_empty_setting_uses_default [of empty_limit_penv] empty_limit_setting by simp
  then have "validateFile empty_limit_penv (Some sample_big_png)
      = Some ''File size must be less than 25MB. Current size: 30.00MB''"
    by (simp add: validateFile_def sample_big_png_supported)
       (simp add: sample_big_png_def size_message_def show_int_def megabytes_toFixed2_def
          show_nat.simps digit_char_def)
  then show ?thesis
    by (simp add: empty_limit_setting parseInt_empty sample_big_png_supported)
qed

text \<open>
  C10, amended. When the configured size setting is a non-empty string with no integer
  prefix, \<open>parseInt\<close> gives \<open>NaN\<close>, the limit is \<open>NaN\<close>, and a file with an allowed MIME
  type is accepted whatever its size. When the setting is absent or empty, the default
  \<open>25\<close> is parsed instead and the ceiling of 26214400 bytes applies.
\<close>

theorem validateFile_unparsable_setting_accepts:
  assumes "file_type f \<in> set SUPPORTED_FORMATS"
  shows "(\<forall>v. env_setting penv ''REACT_APP_MAX_FILE_SIZE_MB'' = Some v \<and> v \<noteq> [] \<and> parseInt v = None
            \<longrightarrow> MAX_FILE_SIZE penv = None \<and> validateFile penv (Some f) = None)
       \<and> (env_setting penv ''REACT_APP_MAX_FILE_SIZE_MB'' = None
            \<or> env_setting penv ''REACT_APP_MAX_FILE_SIZE_MB'' = Some []
            \<longrightarrow> MAX_FILE_SIZE penv = Some 26214400
                \<and> (validateFile penv (Some f) = None) = (file_size f \<le> 26214400))"
proof -
  have "MAX_FILE_SIZE penv = None \<and> validateFile penv (Some f) = None"
    if "env_setting penv ''REACT_APP_MAX_FILE_SIZE_MB'' = Some v" and "v \<noteq> []"
      and "parseInt v = None" for v
  proof -
    from that have "MAX_FILE_SIZE penv = None"
      by (simp add: MAX_FILE_SIZE_def getEnvVar_setting)
    with assms show ?thesis
      by (simp add: NaN_limit_accepts)
  qed
  moreover have "MAX_FILE_SIZE penv = Some 26214400
        \<and> (validateFile penv (Some f) = None) = (file_size f \<le> 26214400)"
    if "env_setting penv ''REACT_APP_MAX_FILE_SIZE_MB'' = None
          \<or> env_setting penv ''REACT_APP_MAX_FILE_SIZE_MB'' = Some []"
  proof -
    from that have "MAX_FILE_SIZE penv = Some 26214400"
      by (rule absent_or_empty_setting_uses_default)
    with assms show ?thesis
      by (auto simp: validateFile_def)
  qed
  ultimately show ?thesis
    by blast
qed

theorem validateFile_unparsable_setting_accepts_witness:
  "file_type (sample_png\<lparr>file_size := 9007199254740991\<rparr>) \<in> set SUPPORTED_FORMATS
   \<and> env_setting unparsable_limit_penv ''REACT_APP_MAX_FILE_SIZE_MB'' = Some ''unlimited''
   \<and> parseInt ''unlimited'' = None
   \<and> validateFile unparsable_limit_penv (Some (sample_png\<lparr>file_size := 9007199254740991\<rparr>)) = None
   \<and> env_setting empty_limit_penv ''REACT_APP_MAX_FILE_SIZE_MB'' = Some []
   \<and> MAX_FILE_SIZE empty_limit_penv = Some 26214400
   \<and> validateFile empty_limit_penv (Some (sample_png\<lparr>file_size := 9007199254740991\<rparr>)) \<noteq> None"
proof -
  have t: "file_type (sample_png\<lparr>file_size := 9007199254740991\<rparr>) \<in> set SUPPORTED_FORMATS"
    using sample_png_supported by simp
  show ?thesis
    using validateFile_unparsable_setting_accepts [OF t, of unparsable_limit_penv]
      validateFile_unparsable_setting_accepts [OF t, of empty_limit_penv]
      unparsable_limit_setting empty_limit_setting parseInt_unlimited t
    by simp
qed

section \<open>Reset\<close>

text \<open>
  C9. From every state, \<open>resetTool\<close> leaves the image, the preview, the result, the error,
  the instructions and the copy acknowledgment empty, and applying it twice gives the same
  state as applying it once.
\<close>

theorem resetTool_clears_and_idempotent:
  "image_state (resetTool s) = None
   \<and> imagePreview (resetTool s) = None
   \<and> latexCode (resetTool s) = []
   \<and> error (resetTool s) = []
   \<and> instructions (resetTool s) = []
   \<and> copySuccess (resetTool s) = False
   \<and> resetTool (resetTool s) = resetTool s"
  by (cases "fileInputRef s") (simp_all add: resetTool_def)

section \<open>Upload\<close>

lemma handleImageUpload_accepted:
  "validateFile penv fo = None \<Longrightarrow>
   handleImageUpload penv fo rd s =
     (case rd of
        ReadLoaded url \<Rightarrow> s\<lparr>image_state := fo, error := [], latexCode := [], imagePreview := Some url\<rparr>
      | ReadFailed \<Rightarrow> s\<lparr>image_state := fo, latexCode := [], error := ''Failed to read the image file''\<rparr>)"
  by (simp add: handleImageUpload_def split: read_result.splits)

lemma handleImageUpload_rejected:
  "validateFile penv fo = Some e \<Longrightarrow> handleImageUpload penv fo rd s = s\<lparr>error := e\<rparr>"
  using validateFile_message_nonempty [of penv fo e] by (simp add: handleImageUpload_def)

lemma sample_png_accepted: "validateFile demo_penv (Some sample_png) = None"
  by (simp add: validateFile_def sample_png_supported default_limit) (simp add: sample_png_def)

lemma sample_text_file_rejected:
  "validateFile demo_penv (Some sample_text_file)
     = Some ''Please upload a valid image file (PNG, JPG, JPEG, GIF, WebP)''"
  by (simp add: validateFile_def sample_text_file_unsupported)

lemma sample_big_png_rejected:
  "validateFile demo_penv (Some sample_big_png)
     = Some ''File size must be less than 25MB. Current size: 30.00MB''"
  by (simp add: validateFile_def sample_big_png_supported default_limit)
     (simp add: sample_big_png_def size_message_def show_int_def megabytes_toFixed2_def
        show_nat.simps digit_char_def)

section \<open>Conversion: properties\<close>

lemma demoLatex_nonempty: "demoLatex \<noteq> []"
  by (simp add: demoLatex_def)

lemma API_KEY_demo: "API_KEY demo_penv = []"
  by (simp add: API_KEY_def demo_penv_def getEnvVar_def)

lemma API_KEY_live: "API_KEY live_penv = ''sk-ant-sample''"
  by (simp add: API_KEY_def live_penv_def getEnvVar_def)

lemma convertToLatex_demo:
  "API_KEY penv = [] \<Longrightarrow> image_state s = Some img \<Longrightarrow>
   convertToLatex penv env s
     = (s\<lparr>latexCode := demoLatex, error := [], isConverting := False\<rparr>, [SetTimeout 2000])"
  by (simp add: convertToLatex_def try_block_def)

lemma uploaded_state:
  "run demo_penv [Upload (Some sample_png) (ReadLoaded sample_url)]
     = initial_state\<lparr>image_state := Some sample_png, imagePreview := Some sample_url\<rparr>"
  by (simp add: run_def handleImageUpload_accepted [OF sample_png_accepted] initial_state_def)

lemma demo_converted_state:
  "run demo_penv [Upload (Some sample_png) (ReadLoaded sample_url), Convert offline_env]
     = initial_state\<lparr>image_state := Some sample_png, imagePreview := Some sample_url,
         latexCode := demoLatex\<rparr>"
  by (simp add: run_def handleImageUpload_accepted [OF sample_png_accepted]
      convertToLatex_demo [OF API_KEY_demo] initial_state_def)

text \<open>
  C8. A conversion that starts (an image is present) ends with \<open>isConverting\<close> false,
  whatever the reader, the network and the response do: demo text, read failure,
  transport failure, non-success status, unparsable or malformed body, or success.
\<close>

theorem convertToLatex_clears_isConverting:
  "image_state s = Some img \<Longrightarrow> isConverting (fst (convertToLatex penv env s)) = False"
  by (simp add: convertToLatex_def split: prod.splits sum.splits)

theorem convertToLatex_clears_isConverting_witness:
  "image_state (initial_state\<lparr>image_state := Some sample_png, isConverting := True\<rparr>) = Some sample_png
   \<and> isConverting (fst (convertToLatex live_penv offline_env
         (initial_state\<lparr>image_state := Some sample_png, isConverting := True\<rparr>))) = False"
  using convertToLatex_clears_isConverting
    [of "initial_state\<lparr>image_state := Some sample_png, isConverting := True\<rparr>" sample_png
        live_penv offline_env]
  by simp

text \<open>
  C3. With no credential configured and an image present, a conversion causes one event,
  the 2000 ms timer, and no \<open>fetch\<close>; it stores the fixed sample text as the result and
  leaves the error empty.
\<close>

theorem demo_mode_conversion:
  assumes "API_KEY penv = []" and "image_state s = Some img"
  shows "convertToLatex penv env s
           = (s\<lparr>latexCode := demoLatex, error := [], isConverting := False\<rparr>, [SetTimeout 2000])
         \<and> (\<forall>r. Fetch r \<notin> set (snd (convertToLatex penv env s)))
         \<and> latexCode (fst (convertToLatex penv env s)) = demoLatex
         \<and> error (fst (convertToLatex penv env s)) = []"
  using convertToLatex_demo [OF assms] by simp

theorem demo_mode_conversion_witness:
  "API_KEY demo_penv = []
   \<and> image_state (initial_state\<lparr>image_state := Some sample_png, error := ''old error''\<rparr>) = Some sample_png
   \<and> snd (convertToLatex demo_penv success_env
        (initial_state\<lparr>image_state := Some sample_png, error := ''old error''\<rparr>)) = [SetTimeout 2000]
   \<and> latexCode (fst (convertToLatex demo_penv success_env
        (initial_state\<lparr>image_state := Some sample_png, error := ''old error''\<rparr>))) = demoLatex
   \<and> error (fst (convertToLatex demo_penv success_env
        (initial_state\<lparr>image_state := Some sample_png, error := ''old error''\<rparr>))) = []"
proof -
  have img: "image_state (initial_state\<lparr>image_state := Some sample_png, error := ''old error''\<rparr>)
               = Some sample_png"
    by simp
  show ?thesis
    using demo_mode_conversion [OF API_KEY_demo img, of success_env] API_KEY_demo by simp
qed

section \<open>Result and error across uploads\<close>

text \<open>
  C1, as stated, fails: after a demo conversion has produced a result, the upload of a
  text file is rejected by validation, and the earlier result is still in \<open>latexCode\<close>
  (the handler returns right after \<open>setError\<close>).
\<close>

theorem rejected_upload_keeps_result:
  "latexCode (run demo_penv [Upload (Some sample_png) (ReadLoaded sample_url), Convert offline_env])
     = demoLatex
   \<and> demoLatex \<noteq> []
   \<and> validateFile demo_penv (Some sample_text_file) \<noteq> None
   \<and> latexCode (run demo_penv [Upload (Some sample_png) (ReadLoaded sample_url), Convert offline_env,
        Upload (Some sample_text_file) (ReadLoaded sample_url)]) = demoLatex"
proof -
  have "run demo_penv [Upload (Some sample_png) (ReadLoaded sample_url), Convert offline_env,
          Upload (Some sample_text_file) (ReadLoaded sample_url)]
        = handleImageUpload demo_penv (Some sample_text_file) (ReadLoaded sample_url)
            (run demo_penv [Upload (Some sample_png) (ReadLoaded sample_url), Convert offline_env])"
    by (simp add: run_def)
  then show ?thesis
    by (simp add: demo_converted_state demoLatex_nonempty sample_text_file_rejected
        handleImageUpload_rejected [OF sample_text_file_rejected])
qed

text \<open>
  C1, amended. An upload whose file passes validation clears the previous result and the
  previous error (the error is set again only when reading the new file fails). An upload
  whose file fails validation replaces the error by the validation message and keeps the
  previous result.
\<close>

theorem handleImageUpload_result_and_error:
  "(validateFile penv fo = None \<longrightarrow>
      latexCode (handleImageUpload penv fo rd s) = []
      \<and> error (handleImageUpload penv fo rd s)
          = (case rd of ReadLoaded url \<Rightarrow> [] | ReadFailed \<Rightarrow> ''Failed to read the image file''))
   \<and> (\<forall>e. validateFile penv fo = Some e \<longrightarrow>
      latexCode (handleImageUpload penv fo rd s) = latexCode s
      \<and> error (handleImageUpload penv fo rd s) = e
      \<and> e \<noteq> [])"
  by (auto simp: handleImageUpload_accepted handleImageUpload_rejected
      validateFile_message_nonempty split: read_result.splits)

theorem handleImageUpload_result_and_error_witness:
  "validateFile demo_penv (Some sample_png) = None
   \<and> latexCode (handleImageUpload demo_penv (Some sample_png) (ReadLoaded sample_url)
        (initial_state\<lparr>latexCode := ''x'', error := ''old error''\<rparr>)) = []
   \<and> error (handleImageUpload demo_penv (Some sample_png) (ReadLoaded sample_url)
        (initial_state\<lparr>latexCode := ''x'', error := ''old error''\<rparr>)) = []
   \<and> validateFile demo_penv (Some sample_text_file)
        = Some ''Please upload a valid image file (PNG, JPG, JPEG, GIF, WebP)''
   \<and> latexCode (handleImageUpload demo_penv (Some sample_text_file) (ReadLoaded sample_url)
        (initial_state\<lparr>latexCode := ''x'', error := ''old error''\<rparr>)) = ''x''
   \<and> error (handleImageUpload demo_penv (Some sample_text_file) (ReadLoaded sample_url)
        (initial_state\<lparr>latexCode := ''x'', error := ''old error''\<rparr>))
        = ''Please upload a valid image file (PNG, JPG, JPEG, GIF, WebP)''"
  using handleImageUpload_result_and_error
      [of demo_penv "Some sample_png" "ReadLoaded sample_url"
          "initial_state\<lparr>latexCode := ''x'', error := ''old error''\<rparr>"]
    handleImageUpload_result_and_error
      [of demo_penv "Some sample_text_file" "ReadLoaded sample_url"
          "initial_state\<lparr>latexCode := ''x'', error := ''old error''\<rparr>"]
    sample_png_accepted sample_text_file_rejected
  by simp

text \<open>
  C2, as stated, fails: after a demo conversion has produced a result, the upload of a
  30 MB image is rejected by validation; the result and the error are then both non-empty.
\<close>

theorem result_and_error_both_set:
  "latexCode (run demo_penv [Upload (Some sample_png) (ReadLoaded sample_url), Convert offline_env,
        Upload (Some sample_big_png) (ReadLoaded sample_url)]) = demoLatex
   \<and> demoLatex \<noteq> []
   \<and> error (run demo_penv [Upload (Some sample_png) (ReadLoaded sample_url), Convert offline_env,
        Upload (Some sample_big_png) (ReadLoaded sample_url)])
       = ''File size must be less than 25MB. Current size: 30.00MB''"
proof -
  have "run demo_penv [Upload (Some sample_png) (ReadLoaded sample_url), Convert offline_env,
          Upload (Some sample_big_png) (ReadLoaded sample_url)]
        = handleImageUpload demo_penv (Some sample_big_png) (ReadLoaded sample_url)
            (run demo_penv [Upload (Some sample_png) (ReadLoaded sample_url), Convert offline_env])"
    by (simp add: run_def)
  then show ?thesis
    by (simp add: demo_converted_state demoLatex_nonempty
        handleImageUpload_rejected [OF sample_big_png_rejected])
qed

lemma run_snoc: "run penv (acts @ [a]) = step penv (run penv acts) a"
  by (simp add: run_def)

lemma handleImageUpload_cases:
  "handleImageUpload penv fo rd s =
     (case validateFile penv fo of
        Some e \<Rightarrow> s\<lparr>error := e\<rparr>
      | None \<Rightarrow> (case rd of
            ReadLoaded url \<Rightarrow> s\<lparr>image_state := fo, error := [], latexCode := [], imagePreview := Some url\<rparr>
          | ReadFailed \<Rightarrow> s\<lparr>image_state := fo, latexCode := [], error := ''Failed to read the image file''\<rparr>))"
  by (simp add: handleImageUpload_accepted handleImageUpload_rejected split: option.splits)

lemma step_rejected_upload:
  assumes "upload_rejected penv a"
  shows "latexCode (step penv s a) = latexCode s \<and> error (step penv s a) \<noteq> []"
proof (cases a)
  case (Upload fo rd)
  with assms obtain e where "validateFile penv fo = Some e"
    by (auto simp: upload_rejected_def)
  with Upload show ?thesis
    by (simp add: handleImageUpload_rejected validateFile_message_nonempty)
next
  case (Drop files rd)
  with assms obtain f fs e where "files = f # fs" and "validateFile penv (Some f) = Some e"
    by (auto simp: upload_rejected_def split: list.splits)
  with Drop show ?thesis
    by (simp add: handleDrop_def handleImageUpload_rejected validateFile_message_nonempty)
qed (use assms in \<open>simp_all add: upload_rejected_def\<close>)

lemma step_leaves_result_and_error:
  assumes "leaves_result_and_error a"
  shows "latexCode (step penv s a) = latexCode s \<and> error (step penv s a) = error s"
  using assms
  by (cases a) (simp_all add: leaves_result_and_error_def handleDrop_def handleDragEnter_def
      handleDragLeave_def copyToClipboard_def copyTimeout_def)

lemma step_result_needs_image:
  assumes "result_needs_image s"
  shows "result_needs_image (step penv s a)"
  using assms
  by (cases a)
     (auto simp: result_needs_image_def handleImageUpload_cases handleDrop_def handleDragEnter_def Let_def
        handleDragLeave_def copyToClipboard_def copyTimeout_def resetTool_def convertToLatex_def
        split: option.splits read_result.splits list.splits prod.splits sum.splits)

lemma run_result_needs_image: "result_needs_image (run penv acts)"
proof (induction acts rule: rev_induct)
  case Nil
  show ?case by (simp add: run_def result_needs_image_def initial_state_def)
next
  case (snoc a acts)
  then show ?case by (simp add: run_snoc step_result_needs_image)
qed

lemma step_settles:
  assumes "\<not> upload_rejected penv a" and "\<not> leaves_result_and_error a"
    and "result_needs_image s"
  shows "\<not> result_and_error_shown (step penv s a)"
  using assms
  by (cases a)
     (auto simp: result_and_error_shown_def result_needs_image_def upload_rejected_def
        leaves_result_and_error_def handleImageUpload_cases handleDrop_def resetTool_def
        convertToLatex_def Let_def
        split: option.splits read_result.splits list.splits prod.splits sum.splits)

lemma rejected_not_neutral: "upload_rejected penv a \<Longrightarrow> \<not> leaves_result_and_error a"
  by (cases a) (auto simp: upload_rejected_def leaves_result_and_error_def split: list.splits)

lemma last_touch_rejected_snoc:
  "last_touch_rejected penv (acts @ [x]) =
     ((upload_rejected penv x \<and> latexCode (run penv acts) \<noteq> [])
      \<or> (leaves_result_and_error x \<and> last_touch_rejected penv acts))"
proof
  assume "last_touch_rejected penv (acts @ [x])"
  then obtain pre a post where d: "acts @ [x] = pre @ a # post" and r: "upload_rejected penv a"
    and l: "latexCode (run penv pre) \<noteq> []" and n: "\<forall>b \<in> set post. leaves_result_and_error b"
    unfolding last_touch_rejected_def by blast
  show "(upload_rejected penv x \<and> latexCode (run penv acts) \<noteq> [])
      \<or> (leaves_result_and_error x \<and> last_touch_rejected penv acts)"
  proof (cases post rule: rev_cases)
    case Nil
    with d have "acts = pre" and "x = a" by simp_all
    with r l show ?thesis by simp
  next
    case (snoc post' y)
    with d have "acts @ [x] = (pre @ a # post') @ [y]" by simp
    then have "acts = pre @ a # post'" and "x = y" by simp_all
    with r l n snoc show ?thesis
      unfolding last_touch_rejected_def by auto
  qed
next
  assume "(upload_rejected penv x \<and> latexCode (run penv acts) \<noteq> [])
      \<or> (leaves_result_and_error x \<and> last_touch_rejected penv acts)"
  then show "last_touch_rejected penv (acts @ [x])"
  proof
    assume "upload_rejected penv x \<and> latexCode (run penv acts) \<noteq> []"
    then have "acts @ [x] = acts @ x # [] \<and> upload_rejected penv x
        \<and> latexCode (run penv acts) \<noteq> [] \<and> (\<forall>b \<in> set []. leaves_result_and_error b)"
      by simp
    then show ?thesis
      unfolding last_touch_rejected_def by blast
  next
    assume a: "leaves_result_and_error x \<and> last_touch_rejected penv acts"
    then obtain pre a post where "acts = pre @ a # post" and "upload_rejected penv a"
      and "latexCode (run penv pre) \<noteq> []" and "\<forall>b \<in> set post. leaves_result_and_error b"
      unfolding last_touch_rejected_def by blast
    with a have "acts @ [x] = pre @ a # (post @ [x]) \<and> upload_rejected penv a
        \<and> latexCode (run penv pre) \<noteq> [] \<and> (\<forall>b \<in> set (post @ [x]). leaves_result_and_error b)"
      by simp
    then show ?thesis
      unfolding last_touch_rejected_def by blast
  qed
qed

lemma shown_iff_last_touch_rejected:
  "result_and_error_shown (run penv acts) = last_touch_rejected penv acts"
proof (induction acts rule: rev_induct)
  case Nil
  show ?case
    by (simp add: run_def result_and_error_shown_def initial_state_def last_touch_rejected_def)
next
  case (snoc x acts)
  show ?case
  proof (cases "upload_rejected penv x")
    case True
    then show ?thesis
      using step_rejected_upload [OF True, of "run penv acts"] rejected_not_neutral [OF True]
      by (simp add: last_touch_rejected_snoc run_snoc result_and_error_shown_def)
  next
    case rej: False
    show ?thesis
    proof (cases "leaves_result_and_error x")
      case True
      then show ?thesis
        using step_leaves_result_and_error [OF True, of penv "run penv acts"] rej snoc
        by (simp add: last_touch_rejected_snoc run_snoc result_and_error_shown_def)
    next
      case False
      then show ?thesis
        using step_settles [OF rej False run_result_needs_image [of penv acts]] rej
        by (simp add: last_touch_rejected_snoc run_snoc)
    qed
  qed
qed

text \<open>
  C2, amended. After every sequence of actions (upload, drop, drag, typing instructions,
  convert, copy, dismissing the error, reset), each run to its end before the next, the
  result and the error are both non-empty exactly when the last action that touched
  either of them was an upload that validation rejected while a result was in place.
  Such an upload sets the error and keeps the result; copying, dragging and typing change
  neither; after an accepted upload, a conversion, a dismissal or a reset at most one of
  the two is non-empty.
\<close>

theorem result_and_error_shown_iff_rejected_upload:
  "result_and_error_shown (run penv acts)
     = (\<exists>pre a post. acts = pre @ a # post \<and> upload_rejected penv a
          \<and> latexCode (run penv pre) \<noteq> [] \<and> (\<forall>b \<in> set post. leaves_result_and_error b))
   \<and> (upload_rejected penv u \<longrightarrow>
         latexCode (step penv s u) = latexCode s \<and> error (step penv s u) \<noteq> [])
   \<and> (leaves_result_and_error u \<longrightarrow>
         latexCode (step penv s u) = latexCode s \<and> error (step penv s u) = error s)
   \<and> (\<not> upload_rejected penv u \<and> \<not> leaves_result_and_error u \<longrightarrow>
         \<not> result_and_error_shown (run penv (acts @ [u])))"
proof -
  have "result_and_error_shown (run penv acts)
     = (\<exists>pre a post. acts = pre @ a # post \<and> upload_rejected penv a
          \<and> latexCode (run penv pre) \<noteq> [] \<and> (\<forall>b \<in> set post. leaves_result_and_error b))"
    using shown_iff_last_touch_rejected [of penv acts]
    by (simp only: last_touch_rejected_def)
  moreover have "\<not> result_and_error_shown (run penv (acts @ [u]))"
    if "\<not> upload_rejected penv u" and "\<not> leaves_result_and_error u"
    using step_settles [OF that run_result_needs_image [of penv acts]]
    by (simp add: run_snoc)
  ultimately show ?thesis
    using step_rejected_upload [of penv u s] step_leaves_result_and_error [of u penv s]
    by blast
qed

theorem result_and_error_shown_iff_rejected_upload_witness:
  "upload_rejected demo_penv (Upload (Some sample_big_png) (ReadLoaded sample_url))
   \<and> latexCode (run demo_penv [Upload (Some sample_png) (ReadLoaded sample_url), Convert offline_env])
       \<noteq> []
   \<and> result_and_error_shown (run demo_penv [Upload (Some sample_png) (ReadLoaded sample_url),
        Convert offline_env, Upload (Some sample_big_png) (ReadLoaded sample_url)])
   \<and> \<not> result_and_error_shown (run demo_penv ([Upload (Some sample_png) (ReadLoaded sample_url),
        Convert offline_env, Upload (Some sample_big_png) (ReadLoaded sample_url)]
        @ [Convert offline_env]))"
proof -
  have rej: "upload_rejected demo_penv (Upload (Some sample_big_png) (ReadLoaded sample_url))"
    by (simp add: upload_rejected_def sample_big_png_rejected)
  have res: "latexCode (run demo_penv [Upload (Some sample_png) (ReadLoaded sample_url),
      Convert offline_env]) \<noteq> []"
    by (simp add: demo_converted_state demoLatex_nonempty)
  have "[Upload (Some sample_png) (ReadLoaded sample_url), Convert offline_env,
          Upload (Some sample_big_png) (ReadLoaded sample_url)]
        = [Upload (Some sample_png) (ReadLoaded sample_url), Convert offline_env]
          @ Upload (Some sample_big_png) (ReadLoaded sample_url) # []
      \<and> upload_rejected demo_penv (Upload (Some sample_big_png) (ReadLoaded sample_url))
      \<and> latexCode (run demo_penv [Upload (Some sample_png) (ReadLoaded sample_url),
            Convert offline_env]) \<noteq> []
      \<and> (\<forall>b \<in> set []. leaves_result_and_error b)"
    using rej res by simp
  then have ex: "\<exists>pre a post.
        [Upload (Some sample_png) (ReadLoaded sample_url), Convert offline_env,
          Upload (Some sample_big_png) (ReadLoaded sample_url)] = pre @ a # post
      \<and> upload_rejected demo_penv a \<and> latexCode (run demo_penv pre) \<noteq> []
      \<and> (\<forall>b \<in> set post. leaves_result_and_error b)"
    by blast
  have conv: "\<not> upload_rejected demo_penv (Convert offline_env)
      \<and> \<not> leaves_result_and_error (Convert offline_env)"
    by (simp add: upload_rejected_def leaves_result_and_error_def)
  show ?thesis
    using result_and_error_shown_iff_rejected_upload
        [of demo_penv "[Upload (Some sample_png) (ReadLoaded sample_url), Convert offline_env,
          Upload (Some sample_big_png) (ReadLoaded sample_url)]" "Convert offline_env"]
      ex conv rej res
    by blast
qed

section \<open>Non-success responses\<close>

lemma live_conversion_of_failed_response:
  assumes "image_state s = Some img" and "API_KEY penv \<noteq> []"
    and "file_read env = ReadLoaded url" and "fetch_reply env = FetchResponse status body"
    and "\<not> response_ok status"
  shows "error (fst (convertToLatex penv env s))
           = catch_block (case failed_request_message (type_error_message env) status (errorData body) of
                            Inl m \<Rightarrow> m | Inr m \<Rightarrow> m)
         \<and> latexCode (fst (convertToLatex penv env s)) = []"
  using assms by (simp add: convertToLatex_def try_block_def Let_def split: sum.splits)

lemma js_includes_here: "js_includes (sub @ q) sub"
proof (cases "sub @ q")
  case Nil
  then show ?thesis by simp
next
  case (Cons a list)
  have "take (length sub) (sub @ q) = sub"
    by simp
  then have "take (length sub) (a # list) = sub"
    by (simp only: Cons)
  then show ?thesis
    by (simp only: Cons js_includes.simps simp_thms)
qed

lemma js_includes_middle: "js_includes (p @ sub @ q) sub"
proof (induction p)
  case Nil
  show ?case using js_includes_here by simp
next
  case (Cons c p)
  then show ?case by simp
qed

lemma unauthorized_any_detail:
  "catch_block (''API request failed: '' @ show_nat 401 @ '' - '' @ detail)
     = ''Invalid API key. Please check your Anthropic API key in the .env.local file.''"
proof -
  have "show_nat 401 = ''401''"
    by (simp add: show_nat.simps digit_char_def)
  then have "js_includes (''API request failed: '' @ show_nat 401 @ '' - '' @ detail) ''401''"
    using js_includes_middle [of "''API request failed: ''" "''401''" "'' - '' @ detail"] by simp
  then show ?thesis
    by (simp only: catch_block_def if_True)
qed

text \<open>A 401 response is reported as an invalid key whatever detail its body carries,
  as long as the message of the thrown error can be built (the body is not \<open>null\<close> and
  its detail can be turned into a string): \<open>401\<close> is the first substring the \<open>catch\<close>
  block looks for.\<close>

lemma unauthorized_response_shows_invalid_key:
  assumes "image_state s = Some img" and "API_KEY penv \<noteq> []"
    and "file_read env = ReadLoaded url" and "fetch_reply env = FetchResponse 401 body"
    and "failed_request_message (type_error_message env) 401 (errorData body) = Inr msg"
  shows "error (fst (convertToLatex penv env s))
           = ''Invalid API key. Please check your Anthropic API key in the .env.local file.''"
proof -
  have "\<not> response_ok 401"
    by (simp add: response_ok_def)
  from live_conversion_of_failed_response [OF assms(1-4) this] assms(5)
  have shown: "error (fst (convertToLatex penv env s)) = catch_block msg"
    by simp
  from assms(5) obtain detail where
    "msg = ''API request failed: '' @ show_nat 401 @ '' - '' @ detail"
    by (auto simp: failed_request_message_def Let_def split: if_splits option.splits)
  with shown show ?thesis
    by (simp only: unauthorized_any_detail)
qed

text \<open>With a body that carries no detail the message follows the status code.\<close>

lemma status_mapping_without_detail:
  "catch_block (''API request failed: '' @ show_nat 401 @ '' - '' @ ''Unknown error'')
     = ''Invalid API key. Please check your Anthropic API key in the .env.local file.''"
  "catch_block (''API request failed: '' @ show_nat 403 @ '' - '' @ ''Unknown error'')
     = ''Access forbidden. Please check your API key permissions.''"
  "catch_block (''API request failed: '' @ show_nat 429 @ '' - '' @ ''Unknown error'')
     = ''Rate limit exceeded. Please wait a moment and try again.''"
  "catch_block (''API request failed: '' @ show_nat 500 @ '' - '' @ ''Unknown error'')
     = ''Failed to convert image to LaTeX: API request failed: 500 - Unknown error''"
  by (simp_all add: catch_block_def show_nat.simps digit_char_def)

text \<open>
  C4 at a 429 response whose error detail is \<open>Limit of 401 requests per minute reached\<close>:
  the thrown message is \<open>API request failed: 429 - Limit of 401 requests per minute
  reached\<close>, the \<open>catch\<close> block finds \<open>401\<close> in it first, and the error shown is the
  invalid-key message, not the rate-limit message.
\<close>

theorem rate_limit_response_shown_as_invalid_key:
  "fetch_reply rate_limited_env
     = FetchResponse 429
        (Json (JObj [(''type'', JStr ''error''),
                     (''error'', JObj [(''type'', JStr ''rate_limit_error''),
                                       (''message'', JStr ''Limit of 401 requests per minute reached'')])]))
   \<and> error (fst (convertToLatex live_penv rate_limited_env
        (initial_state\<lparr>image_state := Some sample_png\<rparr>)))
       = ''Invalid API key. Please check your Anthropic API key in the .env.local file.''"
proof -
  have msg: "failed_request_message (type_error_message rate_limited_env) 429
               (errorData (Json (JObj [(''type'', JStr ''error''),
                     (''error'', JObj [(''type'', JStr ''rate_limit_error''),
                                       (''message'', JStr ''Limit of 401 requests per minute reached'')])])))
             = Inr ''API request failed: 429 - Limit of 401 requests per minute reached''"
    by (simp add: failed_request_message_def errorData_def show_nat.simps digit_char_def)
  have "error (fst (convertToLatex live_penv rate_limited_env
          (initial_state\<lparr>image_state := Some sample_png\<rparr>)))
        = catch_block ''API request failed: 429 - Limit of 401 requests per minute reached''"
    using live_conversion_of_failed_response
      [of "initial_state\<lparr>image_state := Some sample_png\<rparr>" sample_png live_penv rate_limited_env
          sample_url 429 "Json (JObj [(''type'', JStr ''error''),
                     (''error'', JObj [(''type'', JStr ''rate_limit_error''),
                                       (''message'', JStr ''Limit of 401 requests per minute reached'')])])"]
      msg
    by (simp add: API_KEY_live rate_limited_env_def response_ok_def)
  then show ?thesis
    by (simp add: catch_block_def rate_limited_env_def)
qed

section \<open>Success responses\<close>

lemma falsy_has_no_first_element: "\<not> truthy (Some c) \<Longrightarrow> js_index0 c = None"
  by (cases c) simp_all

lemma falsy_has_no_property: "\<not> truthy (Some b) \<Longrightarrow> js_get b name = None"
  by (cases b) simp_all

lemma extract_latex_first_block_text:
  assumes "d \<noteq> JNull"
  shows "extract_latex te d =
           (if \<not> truthy (first_block_text d) then Inl ''Invalid response format from API''
            else (case the (first_block_text d) of JStr t \<Rightarrow> Inr (js_trim t) | _ \<Rightarrow> Inl te))"
proof (cases "js_get d ''content''")
  case None
  with assms show ?thesis
    by (simp add: extract_latex_def first_block_text_def)
next
  case content: (Some c)
  show ?thesis
  proof (cases "truthy (Some c)")
    case False
    with content assms show ?thesis
      by (simp add: extract_latex_def first_block_text_def falsy_has_no_first_element)
  next
    case c_truthy: True
    show ?thesis
    proof (cases "js_index0 c")
      case None
      with content c_truthy assms show ?thesis
        by (simp add: extract_latex_def first_block_text_def)
    next
      case block: (Some b)
      show ?thesis
      proof (cases "truthy (Some b)")
        case False
        with content c_truthy block assms show ?thesis
          by (simp add: extract_latex_def first_block_text_def falsy_has_no_property)
      next
        case True
        with content c_truthy block assms show ?thesis
          by (simp add: extract_latex_def first_block_text_def)
      qed
    qed
  qed
qed

lemma catch_block_invalid_response:
  "catch_block ''Invalid response format from API''
     = ''Failed to convert image to LaTeX: Invalid response format from API''"
  by (simp add: catch_block_def)

lemma live_conversion_of_success_response:
  assumes "image_state s = Some img" and "API_KEY penv \<noteq> []"
    and "file_read env = ReadLoaded url" and "fetch_reply env = FetchResponse status (Json d)"
    and "response_ok status"
  shows "fst (convertToLatex penv env s)
           = (case extract_latex (type_error_message env) d of
                Inr generatedLatex \<Rightarrow> s\<lparr>error := [], latexCode := generatedLatex, isConverting := False\<rparr>
              | Inl msg \<Rightarrow> s\<lparr>latexCode := [], error := catch_block msg, isConverting := False\<rparr>)"
  using assms by (simp add: convertToLatex_def try_block_def Let_def split: sum.splits)

text \<open>What \<open>trim\<close> removes is white space, and what it leaves neither starts nor ends
  with white space.\<close>

lemma split_trailing:
  "xs = rev (dropWhile P (rev xs)) @ rev (takeWhile P (rev xs))"
proof -
  have "rev (dropWhile P (rev xs)) @ rev (takeWhile P (rev xs))
          = rev (takeWhile P (rev xs) @ dropWhile P (rev xs))"
    by (simp only: rev_append)
  also have "\<dots> = rev (rev xs)"
    by (simp only: takeWhile_dropWhile_id)
  finally show ?thesis
    by simp
qed

lemma js_trim_suffix:
  "dropWhile is_js_space t
     = js_trim t @ rev (takeWhile is_js_space (rev (dropWhile is_js_space t)))"
  unfolding js_trim_def by (rule split_trailing)

lemma js_trim_removes_only_space:
  "\<exists>a b. t = a @ js_trim t @ b \<and> (\<forall>c \<in> set a. is_js_space c) \<and> (\<forall>c \<in> set b. is_js_space c)"
proof -
  let ?a = "takeWhile is_js_space t"
  let ?b = "rev (takeWhile is_js_space (rev (dropWhile is_js_space t)))"
  have "t = ?a @ dropWhile is_js_space t"
    by simp
  then have "t = ?a @ js_trim t @ ?b"
    using js_trim_suffix [of t] by simp
  moreover have "\<forall>c \<in> set ?a. is_js_space c"
    by (auto dest: set_takeWhileD)
  moreover have "\<forall>c \<in> set ?b. is_js_space c"
    by (auto dest: set_takeWhileD)
  ultimately show ?thesis
    by blast
qed

lemma js_trim_no_outer_space:
  assumes "js_trim t \<noteq> []"
  shows "\<not> is_js_space (hd (js_trim t)) \<and> \<not> is_js_space (last (js_trim t))"
proof -
  let ?u = "dropWhile is_js_space t"
  let ?v = "dropWhile is_js_space (rev ?u)"
  from assms have v: "?v \<noteq> []"
    by (simp add: js_trim_def)
  then have u: "?u \<noteq> []"
    by (cases ?u) simp_all
  have "last (js_trim t) = hd ?v"
    using v by (simp add: js_trim_def last_rev)
  then have "\<not> is_js_space (last (js_trim t))"
    using v hd_dropWhile [of is_js_space "rev ?u"] by simp
  moreover have "hd ?u = hd (js_trim t)"
    using assms js_trim_suffix [of t] by (metis hd_append2)
  then have "\<not> is_js_space (hd (js_trim t))"
    using u hd_dropWhile [of is_js_space t] by simp
  ultimately show ?thesis
    by simp
qed

lemma catch_block_nonempty: "catch_block msg \<noteq> []"
  by (simp add: catch_block_def)

text \<open>A success response whose body is not JSON: \<open>response.json()\<close> rejects, nothing is
  stored, and the \<open>catch\<close> block reports the rejection's message.\<close>

lemma live_conversion_of_unparsable_success_body:
  assumes "image_state s = Some img" and "API_KEY penv \<noteq> []"
    and "file_read env = ReadLoaded url" and "fetch_reply env = FetchResponse status (NotJson m)"
    and "response_ok status"
  shows "latexCode (fst (convertToLatex penv env s)) = []
         \<and> error (fst (convertToLatex penv env s)) = catch_block m"
  using assms by (simp add: convertToLatex_def try_block_def Let_def)

text \<open>A success response whose body parses, case by case.\<close>

lemma parsed_success_response_result:
  assumes "image_state s = Some img" and "API_KEY penv \<noteq> []"
    and "file_read env = ReadLoaded url" and "fetch_reply env = FetchResponse status (Json d)"
    and "response_ok status"
  shows "(\<forall>t. first_block_text d = Some (JStr t) \<longrightarrow>
            latexCode (fst (convertToLatex penv env s)) = js_trim t
            \<and> (t \<noteq> [] \<longrightarrow> error (fst (convertToLatex penv env s)) = []))
       \<and> (d \<noteq> JNull \<and> \<not> truthy (first_block_text d) \<longrightarrow>
            latexCode (fst (convertToLatex penv env s)) = []
            \<and> error (fst (convertToLatex penv env s))
                = ''Failed to convert image to LaTeX: Invalid response format from API'')
       \<and> (d = JNull \<or> (truthy (first_block_text d) \<and> (\<forall>t. first_block_text d \<noteq> Some (JStr t))) \<longrightarrow>
            latexCode (fst (convertToLatex penv env s)) = []
            \<and> error (fst (convertToLatex penv env s)) = catch_block (type_error_message env)
            \<and> error (fst (convertToLatex penv env s)) \<noteq> [])"
proof (cases "d = JNull")
  case True
  then show ?thesis
    using live_conversion_of_success_response [OF assms]
    by (simp add: extract_latex_def first_block_text_def catch_block_nonempty)
next
  case False
  have "latexCode (fst (convertToLatex penv env s)) = js_trim t
        \<and> (t \<noteq> [] \<longrightarrow> error (fst (convertToLatex penv env s)) = [])"
    if "first_block_text d = Some (JStr t)" for t
    using that live_conversion_of_success_response [OF assms]
      extract_latex_first_block_text [OF False, of "type_error_message env"]
    by (simp add: js_trim_def)
  moreover have "latexCode (fst (convertToLatex penv env s)) = []
        \<and> error (fst (convertToLatex penv env s))
            = ''Failed to convert image to LaTeX: Invalid response format from API''"
    if "\<not> truthy (first_block_text d)"
    using that live_conversion_of_success_response [OF assms]
      extract_latex_first_block_text [OF False, of "type_error_message env"]
    by (simp add: catch_block_invalid_response)
  moreover have "latexCode (fst (convertToLatex penv env s)) = []
        \<and> error (fst (convertToLatex penv env s)) = catch_block (type_error_message env)
        \<and> error (fst (convertToLatex penv env s)) \<noteq> []"
    if "truthy (first_block_text d)" and "\<forall>t. first_block_text d \<noteq> Some (JStr t)"
  proof -
    from that obtain v where v: "first_block_text d = Some v" and "\<forall>t. v \<noteq> JStr t"
      by (cases "first_block_text d") auto
    then have "(case v of JStr t \<Rightarrow> Inr (js_trim t) | _ \<Rightarrow> Inl (type_error_message env))
                 = (Inl (type_error_message env) :: string + string)"
      by (cases v) simp_all
    with that(1) v show ?thesis
      using live_conversion_of_success_response [OF assms]
        extract_latex_first_block_text [OF False, of "type_error_message env"]
      by (simp add: catch_block_nonempty)
  qed
  ultimately show ?thesis
    using False by blast
qed

text \<open>
  C7, as stated, fails for a success response whose body is the JSON text \<open>null\<close>: the
  text field is missing, the read of \<open>.content\<close> throws a \<open>TypeError\<close>, and the error
  shown carries the engine's message, not \<open>Invalid response format from API\<close>.
\<close>

theorem null_body_reports_engine_message:
  "fetch_reply null_body_env = FetchResponse 200 (Json JNull)
   \<and> response_ok 200
   \<and> first_block_text JNull = None
   \<and> latexCode (fst (convertToLatex live_penv null_body_env
        (initial_state\<lparr>image_state := Some sample_png\<rparr>))) = []
   \<and> error (fst (convertToLatex live_penv null_body_env
        (initial_state\<lparr>image_state := Some sample_png\<rparr>)))
       = ''Failed to convert image to LaTeX: Cannot read properties of null (reading 'content')''
   \<and> error (fst (convertToLatex live_penv null_body_env
        (initial_state\<lparr>image_state := Some sample_png\<rparr>)))
       \<noteq> ''Failed to convert image to LaTeX: Invalid response format from API''"
proof -
  have img: "image_state (initial_state\<lparr>image_state := Some sample_png\<rparr>) = Some sample_png"
    by simp
  have key: "API_KEY live_penv \<noteq> []"
    by (simp add: API_KEY_live)
  have ok: "response_ok 200"
    by (simp add: response_ok_def)
  have rd: "file_read null_body_env = ReadLoaded sample_url"
    and reply: "fetch_reply null_body_env = FetchResponse 200 (Json JNull)"
    and te: "type_error_message null_body_env = ''Cannot read properties of null (reading 'content')''"
    by (simp_all add: null_body_env_def)
  have shown: "catch_block ''Cannot read properties of null (reading 'content')''
      = ''Failed to convert image to LaTeX: Cannot read properties of null (reading 'content')''"
    by (simp add: catch_block_def)
  show ?thesis
    using live_conversion_of_success_response [OF img key rd reply ok]
    by (simp add: extract_latex_def te shown reply ok first_block_text_def)
qed

text \<open>
  C7, amended. For a success response (status 200 to 299) whose body parses to a JSON
  value \<open>d\<close> other than \<open>null\<close>: when \<open>d.content[0].text\<close> is a string \<open>t\<close>, the result
  stored is \<open>t\<close> trimmed (and, for a non-empty \<open>t\<close>, no error is reported); when
  \<open>d.content[0].text\<close> is missing or falsy, no result is stored and the error reported is
  the generic failure text with \<open>Invalid response format from API\<close>. For a body that is
  \<open>null\<close>, for a truthy \<open>text\<close> that is not a string, and for a body that does not parse,
  no result is stored either, and the error reported is what the \<open>catch\<close> block makes of
  the message of the error thrown (the engine's \<open>TypeError\<close>, or the parser's).
\<close>

theorem success_response_result:
  assumes "image_state s = Some img" and "API_KEY penv \<noteq> []"
    and "file_read env = ReadLoaded url" and "fetch_reply env = FetchResponse status body"
    and "response_ok status"
  shows "(\<forall>d t. body = Json d \<and> first_block_text d = Some (JStr t) \<longrightarrow>
            latexCode (fst (convertToLatex penv env s)) = js_trim t
            \<and> (t \<noteq> [] \<longrightarrow> error (fst (convertToLatex penv env s)) = []))
       \<and> (\<forall>d. body = Json d \<and> d \<noteq> JNull \<and> \<not> truthy (first_block_text d) \<longrightarrow>
            latexCode (fst (convertToLatex penv env s)) = []
            \<and> error (fst (convertToLatex penv env s))
                = ''Failed to convert image to LaTeX: Invalid response format from API'')
       \<and> (\<forall>d. body = Json d
              \<and> (d = JNull \<or> (truthy (first_block_text d) \<and> (\<forall>t. first_block_text d \<noteq> Some (JStr t)))) \<longrightarrow>
            latexCode (fst (convertToLatex penv env s)) = []
            \<and> error (fst (convertToLatex penv env s)) = catch_block (type_error_message env)
            \<and> error (fst (convertToLatex penv env s)) \<noteq> [])
       \<and> (\<forall>m. body = NotJson m \<longrightarrow>
            latexCode (fst (convertToLatex penv env s)) = []
            \<and> error (fst (convertToLatex penv env s)) = catch_block m
            \<and> error (fst (convertToLatex penv env s)) \<noteq> [])"
proof (cases body)
  case (NotJson m)
  with assms(4) have "fetch_reply env = FetchResponse status (NotJson m)"
    by simp
  from live_conversion_of_unparsable_success_body [OF assms(1-3) this assms(5)] NotJson
  show ?thesis
    by (simp add: catch_block_nonempty)
next
  case (Json d)
  with assms(4) have "fetch_reply env = FetchResponse status (Json d)"
    by simp
  from parsed_success_response_result [OF assms(1-3) this assms(5)] Json
  show ?thesis
    by (simp add: catch_block_nonempty)
qed

theorem success_response_result_witness:
  "image_state (initial_state\<lparr>image_state := Some sample_png\<rparr>) = Some sample_png
   \<and> API_KEY live_penv \<noteq> []
   \<and> response_ok 200
   \<and> latexCode (fst (convertToLatex live_penv success_env
        (initial_state\<lparr>image_state := Some sample_png\<rparr>))) = ''$x^2$''
   \<and> error (fst (convertToLatex live_penv success_env
        (initial_state\<lparr>image_state := Some sample_png\<rparr>))) = []
   \<and> latexCode (fst (convertToLatex live_penv empty_content_env
        (initial_state\<lparr>image_state := Some sample_png\<rparr>))) = []
   \<and> error (fst (convertToLatex live_penv empty_content_env
        (initial_state\<lparr>image_state := Some sample_png\<rparr>)))
       = ''Failed to convert image to LaTeX: Invalid response format from API''
   \<and> latexCode (fst (convertToLatex live_penv html_body_env
        (initial_state\<lparr>image_state := Some sample_png\<rparr>))) = []
   \<and> error (fst (convertToLatex live_penv html_body_env
        (initial_state\<lparr>image_state := Some sample_png\<rparr>)))
       = ''Failed to convert image to LaTeX: Unexpected token < in JSON at position 0''"
proof -
  have img: "image_state (initial_state\<lparr>image_state := Some sample_png\<rparr>) = Some sample_png"
    by simp
  have key: "API_KEY live_penv \<noteq> []"
    by (simp add: API_KEY_live)
  have ok: "response_ok 200"
    by (simp add: response_ok_def)
  have rd1: "file_read success_env = ReadLoaded sample_url"
    and rd2: "file_read empty_content_env = ReadLoaded sample_url"
    and rd3: "file_read html_body_env = ReadLoaded sample_url"
    by (simp_all add: success_env_def empty_content_env_def html_body_env_def)
  have reply1: "fetch_reply success_env = FetchResponse 200
        (Json (JObj [(''content'', JArr [JObj [(''type'', JStr ''text''), (''text'', JStr '' $x^2$  '')]])]))"
    by (simp add: success_env_def)
  have reply2: "fetch_reply empty_content_env = FetchResponse 200 (Json (JObj [(''content'', JArr [])]))"
    by (simp add: empty_content_env_def)
  have reply3: "fetch_reply html_body_env
      = FetchResponse 200 (NotJson ''Unexpected token < in JSON at position 0'')"
    by (simp add: html_body_env_def)
  have text1: "first_block_text
        (JObj [(''content'', JArr [JObj [(''type'', JStr ''text''), (''text'', JStr '' $x^2$  '')]])])
      = Some (JStr '' $x^2$  '')"
    by (simp add: first_block_text_def)
  have text2: "first_block_text (JObj [(''content'', JArr [])]) = None"
    by (simp add: first_block_text_def)
  have trimmed: "js_trim '' $x^2$  '' = ''$x^2$''"
    by (simp add: js_trim_def is_js_space_def)
  have parser: "catch_block ''Unexpected token < in JSON at position 0''
      = ''Failed to convert image to LaTeX: Unexpected token < in JSON at position 0''"
    by (simp add: catch_block_def)
  show ?thesis
    using success_response_result [OF img key rd1 reply1 ok]
      success_response_result [OF img key rd2 reply2 ok]
      success_response_result [OF img key rd3 reply3 ok]
      text1 text2 trimmed parser img key ok
    by simp
qed

end
